theory Spec2Isabelle
  imports Main
begin

section \<open>Panics\<close>

text \<open>
  A Go \<^verbatim>\<open>panic(msg)\<close> is a value: every function of the route package that can panic
  returns a sum whose left injection carries the panic message.
\<close>

datatype panic = Panic string

section \<open>Path composition (routergroup.go, package path)\<close>

text \<open>
  \<^verbatim>\<open>lastChar\<close> panics on the empty string and otherwise returns the byte at index
  \<^verbatim>\<open>len(str)-1\<close>.
\<close>

definition lastChar :: "string \<Rightarrow> panic + char" where
  "lastChar str =
     (if str = [] then Inl (Panic ''The length of the string can't be 0'')
      else Inr (str ! (length str - 1)))"

text \<open>
  \<^verbatim>\<open>path.Clean\<close> of the Go standard library, which \<^verbatim>\<open>path.Join\<close> applies to the joined
  elements. The state of its loop: the output buffer \<^verbatim>\<open>out\<close> (a \<^verbatim>\<open>lazybuf\<close>,
  here the list \<open>lb_out\<close> whose length is the write index \<^verbatim>\<open>out.w\<close>), the read index \<^verbatim>\<open>r\<close>
  and the index \<^verbatim>\<open>dotdot\<close> where \<^verbatim>\<open>..\<close> must stop.
\<close>

record lazybuf =
  lb_out :: string
  lb_r :: nat
  lb_dotdot :: nat

text \<open>
  The inner loop of the \<^verbatim>\<open>..\<close> case:
  \<^verbatim>\<open>for out.w > dotdot && out.index(out.w) != '/' { out.w-- }\<close>.
\<close>

function back_to_slash :: "string \<Rightarrow> nat \<Rightarrow> nat \<Rightarrow> nat" where
  "back_to_slash bs dd w =
     (if w > dd \<and> bs ! w \<noteq> CHR ''/'' then back_to_slash bs dd (w - 1) else w)"
  by pat_completeness auto
termination
  by (relation "measure (\<lambda>(bs, dd, w). w)") auto

declare back_to_slash.simps [simp del]

text \<open>
  The bytes copied by \<^verbatim>\<open>for ; r < n && path[r] != '/'; r++ { out.append(path[r]) }\<close>.
\<close>

definition path_elem :: "string \<Rightarrow> nat \<Rightarrow> string" where
  "path_elem path i = takeWhile (\<lambda>c. c \<noteq> CHR ''/'') (drop i path)"

text \<open>One iteration of the loop \<^verbatim>\<open>for r < n { switch { ... } }\<close> of \<^verbatim>\<open>Clean\<close>.\<close>

definition clean_step :: "string \<Rightarrow> bool \<Rightarrow> lazybuf \<Rightarrow> lazybuf" where
  "clean_step path rooted b =
     (let n = length path; i = lb_r b; w = length (lb_out b) in
      if path ! i = CHR ''/'' then b\<lparr>lb_r := i + 1\<rparr>
      else if path ! i = CHR ''.'' \<and> (i + 1 = n \<or> path ! (i + 1) = CHR ''/'')
        then b\<lparr>lb_r := i + 1\<rparr>
      else if path ! i = CHR ''.'' \<and> path ! (i + 1) = CHR ''.''
              \<and> (i + 2 = n \<or> path ! (i + 2) = CHR ''/'')
        then (if w > lb_dotdot b
                then b\<lparr>lb_r := i + 2,
                       lb_out := take (back_to_slash (lb_out b) (lb_dotdot b) (w - 1)) (lb_out b)\<rparr>
              else if \<not> rooted
                then (let o2 = (if w > 0 then lb_out b @ ''/'' else lb_out b) @ ''..''
                      in b\<lparr>lb_r := i + 2, lb_out := o2, lb_dotdot := length o2\<rparr>)
              else b\<lparr>lb_r := i + 2\<rparr>)
      else b\<lparr>lb_r := i + length (path_elem path i),
              lb_out := (if rooted \<and> w \<noteq> 1 \<or> \<not> rooted \<and> w \<noteq> 0
                        then lb_out b @ ''/'' else lb_out b)
                     @ path_elem path i\<rparr>)"

lemma path_elem_nonempty:
  "i < length p \<Longrightarrow> p ! i \<noteq> CHR ''/'' \<Longrightarrow> 0 < length (path_elem p i)"
proof -
  assume "i < length p" and ne: "p ! i \<noteq> CHR ''/''"
  then have "drop i p = p ! i # drop (Suc i) p"
    by (simp add: Cons_nth_drop_Suc)
  with ne show ?thesis
    by (simp add: path_elem_def)
qed

lemma clean_step_advances:
  assumes less: "lb_r b < length path"
  shows "lb_r b < lb_r (clean_step path rooted b)"
proof (cases "path ! lb_r b = CHR ''/''")
  case True
  then show ?thesis
    by (simp add: clean_step_def Let_def)
next
  case False
  with less have "0 < length (path_elem path (lb_r b))"
    by (rule path_elem_nonempty)
  with False show ?thesis
    by (simp add: clean_step_def Let_def)
qed

function clean_loop :: "string \<Rightarrow> bool \<Rightarrow> lazybuf \<Rightarrow> string" where
  "clean_loop path rooted b =
     (if lb_r b < length path then clean_loop path rooted (clean_step path rooted b) else lb_out b)"
  by pat_completeness auto
termination
proof (relation "measure (\<lambda>(path, rooted, b). length path - lb_r b)")
  show "wf (measure (\<lambda>(path, rooted, b). length path - lb_r b))"
    by simp
next
  fix path :: string and rooted :: bool and b :: lazybuf
  assume less: "lb_r b < length path"
  then have "lb_r b < lb_r (clean_step path rooted b)"
    by (rule clean_step_advances)
  with less show "((path, rooted, clean_step path rooted b), (path, rooted, b))
      \<in> measure (\<lambda>(path, rooted, b). length path - lb_r b)"
    by simp
qed

declare clean_loop.simps [simp del]

definition Clean :: "string \<Rightarrow> string" where
  "Clean path =
     (if path = [] then ''.''
      else let rooted = (path ! 0 = CHR ''/'');
               res = (if rooted then clean_loop path rooted \<lparr>lb_out = ''/'', lb_r = 1, lb_dotdot = 1\<rparr>
                      else clean_loop path rooted \<lparr>lb_out = [], lb_r = 0, lb_dotdot = 0\<rparr>)
           in if length res = 0 then ''.'' else res)"

text \<open>
  \<^verbatim>\<open>path.Join\<close>: the empty string when every element is empty, otherwise the non-empty
  elements separated by a slash, cleaned.
\<close>

fun join_buf :: "string \<Rightarrow> string list \<Rightarrow> string" where
  "join_buf buf [] = buf"
| "join_buf buf (e # elem) =
     (if length buf > 0 \<or> e \<noteq> []
      then join_buf ((if length buf > 0 then buf @ ''/'' else buf) @ e) elem
      else join_buf buf elem)"

definition Join :: "string list \<Rightarrow> string" where
  "Join elem =
     (if sum_list (map length elem) = 0 then []
      else Clean (join_buf [] elem))"

text \<open>
  \<^verbatim>\<open>joinPaths\<close>. The conjunction \<^verbatim>\<open>&&\<close> is short-circuit: \<^verbatim>\<open>lastChar(finalPath)\<close> is
  evaluated only when the relative path ends with a slash.
\<close>

definition joinPaths :: "string \<Rightarrow> string \<Rightarrow> panic + string" where
  "joinPaths absolutePath relativePath =
     (if relativePath = [] then Inr absolutePath
      else let finalPath = Join [absolutePath, relativePath] in
        case lastChar relativePath of
          Inl p \<Rightarrow> Inl p
        | Inr c1 \<Rightarrow>
            if c1 = CHR ''/'' then
              (case lastChar finalPath of
                 Inl p \<Rightarrow> Inl p
               | Inr c2 \<Rightarrow> if c2 \<noteq> CHR ''/'' then Inr (finalPath @ ''/'') else Inr finalPath)
            else Inr finalPath)"

section \<open>Handler chains in memory\<close>

text \<open>
  A handler is a Go function value. \<open>NilFunc\<close> is the \<^verbatim>\<open>nil\<close> function, \<open>Func n\<close> a function
  supplied by the caller, \<open>ServeFile filepath\<close> the closure built by \<^verbatim>\<open>StaticFile\<close>
  (\<^verbatim>\<open>func(c, ctx) { ctx.File(filepath) }\<close>) and \<open>ServeFS fs\<close> the handler returned by
  \<^verbatim>\<open>fs.NewRequestHandler()\<close>.
\<close>

datatype FS = FS string

datatype HandlerFunc = NilFunc | Func nat | ServeFile string | ServeFS FS

text \<open>
  Modelled from the spec: the static filesystem adapter \<^verbatim>\<open>newRequestHandler() -> handler\<close>,
  whose code is not among the sources; the handler it returns is determined by the adapter.
\<close>

definition NewRequestHandler :: "FS \<Rightarrow> HandlerFunc" where
  "NewRequestHandler fs = ServeFS fs"

text \<open>
  A \<^verbatim>\<open>HandlersChain\<close> is a Go slice: a window \<open>(offset, length, capacity)\<close> on a backing
  array. The memory is the list of the backing arrays allocated so far, an address is an
  index in it, and an allocation appends an array. The \<^verbatim>\<open>nil\<close> slice has capacity zero, so
  nothing is ever read or written through it.
\<close>

type_synonym memory = "HandlerFunc list list"

record slice =
  sl_arr :: nat
  sl_off :: nat
  sl_len :: nat
  sl_cap :: nat

definition nil_slice :: slice where
  "nil_slice = \<lparr>sl_arr = 0, sl_off = 0, sl_len = 0, sl_cap = 0\<rparr>"

definition valid_slice :: "memory \<Rightarrow> slice \<Rightarrow> bool" where
  "valid_slice m s \<longleftrightarrow>
     sl_len s \<le> sl_cap s \<and>
     (sl_cap s = 0 \<or> (sl_arr s < length m \<and> sl_off s + sl_cap s \<le> length (m ! sl_arr s)))"

text \<open>The elements of a slice, in order.\<close>

definition elems :: "memory \<Rightarrow> slice \<Rightarrow> HandlerFunc list" where
  "elems m s = (if sl_len s = 0 then [] else take (sl_len s) (drop (sl_off s) (m ! sl_arr s)))"

text \<open>Overwriting the elements of array \<open>a\<close> from index \<open>i\<close> on with \<open>vs\<close>.\<close>

definition store :: "memory \<Rightarrow> nat \<Rightarrow> nat \<Rightarrow> HandlerFunc list \<Rightarrow> memory" where
  "store m a i vs = m[a := take i (m ! a) @ vs @ drop (i + length vs) (m ! a)]"

text \<open>\<^verbatim>\<open>make(app.HandlersChain, n)\<close>: a new array of \<open>n\<close> nil handlers.\<close>

definition make_slice :: "nat \<Rightarrow> memory \<Rightarrow> slice \<times> memory" where
  "make_slice n m =
     (\<lparr>sl_arr = length m, sl_off = 0, sl_len = n, sl_cap = n\<rparr>, m @ [replicate n NilFunc])"

text \<open>
  \<^verbatim>\<open>copy(dst, src)\<close> copies \<^verbatim>\<open>min(len(dst), len(src))\<close> elements; the elements of the
  source are read before any is written.
\<close>

definition copy_slice :: "slice \<Rightarrow> slice \<Rightarrow> memory \<Rightarrow> memory" where
  "copy_slice dst src m =
     (let n = min (sl_len dst) (sl_len src) in
      if n = 0 then m else store m (sl_arr dst) (sl_off dst) (take n (elems m src)))"

text \<open>The slice expression \<^verbatim>\<open>s[i:]\<close>, which panics when \<open>i\<close> exceeds the length.\<close>

definition slice_from :: "slice \<Rightarrow> nat \<Rightarrow> panic + slice" where
  "slice_from s i =
     (if i > sl_len s then Inl (Panic ''slice bounds out of range'')
      else Inr \<lparr>sl_arr = sl_arr s, sl_off = sl_off s + i,
                sl_len = sl_len s - i, sl_cap = sl_cap s - i\<rparr>)"

text \<open>
  \<^verbatim>\<open>append(s, t...)\<close>. When the capacity suffices the new elements are written into the
  backing array of \<open>s\<close>, after its last element; otherwise a new array is allocated. The
  capacity of a new array is chosen by the Go runtime: it is \<open>grow (cap s) n\<close>, and at
  least the length \<open>n\<close> needed.
\<close>

definition append_slice ::
  "(nat \<Rightarrow> nat \<Rightarrow> nat) \<Rightarrow> slice \<Rightarrow> slice \<Rightarrow> memory \<Rightarrow> slice \<times> memory" where
  "append_slice grow s t m =
     (let vs = elems m t; n = sl_len s + sl_len t in
      if n \<le> sl_cap s then
        (s\<lparr>sl_len := n\<rparr>, if sl_len t = 0 then m else store m (sl_arr s) (sl_off s + sl_len s) vs)
      else
        (let c = max n (grow (sl_cap s) n) in
         (\<lparr>sl_arr = length m, sl_off = 0, sl_len = n, sl_cap = c\<rparr>,
          m @ [elems m s @ vs @ replicate (c - n) NilFunc])))"

text \<open>
  The arguments of a variadic call \<^verbatim>\<open>f(x1, ..., xn)\<close>: the \<^verbatim>\<open>nil\<close> slice when there is none,
  otherwise a slice on a new array that holds them.
\<close>

definition variadic :: "HandlerFunc list \<Rightarrow> memory \<Rightarrow> slice \<times> memory" where
  "variadic vs m =
     (if vs = [] then (nil_slice, m)
      else (\<lparr>sl_arr = length m, sl_off = 0, sl_len = length vs, sl_cap = length vs\<rparr>, m @ [vs]))"

section \<open>Route groups (routergroup.go)\<close>

record RouterGroup =
  Handlers :: slice
  basePath :: string
  engine :: nat
  root :: bool

text \<open>
  The state the route package works on: the memory of the handler chains, and the calls of
  \<^verbatim>\<open>Engine.addRoute\<close> made so far, in order.
\<close>

record route =
  rt_engine :: nat
  rt_method :: string
  rt_path :: string
  rt_handlers :: slice

record state =
  mem :: memory
  routes :: "route list"

text \<open>
  A call either panics or returns; in both cases the state it leaves is kept, since the
  registrations made before a panic stay in the engine.
\<close>

type_synonym 'a result = "(panic \<times> state) + ('a \<times> state)"

definition and_then :: "'a result \<Rightarrow> ('a \<Rightarrow> state \<Rightarrow> 'b result) \<Rightarrow> 'b result" where
  "and_then x f = (case x of Inl e \<Rightarrow> Inl e | Inr (v, st) \<Rightarrow> f v st)"

text \<open>
  Modelled from the spec: the engine's
  \<^verbatim>\<open>addRoute(method, absolutePath, handlers) -> void\<close>, whose code is not among the sources;
  the call is recorded in the route table.
\<close>

definition addRoute :: "nat \<Rightarrow> string \<Rightarrow> string \<Rightarrow> slice \<Rightarrow> state \<Rightarrow> state" where
  "addRoute e httpMethod absolutePath handlers st =
     st\<lparr>routes := routes st @
        [\<lparr>rt_engine = e, rt_method = httpMethod, rt_path = absolutePath, rt_handlers = handlers\<rparr>]\<rparr>"

text \<open>
  Modelled from the spec: the method tokens of package \<^verbatim>\<open>consts\<close>, which is not among the
  sources.
\<close>

definition MethodGet :: string where "MethodGet = ''GET''"
definition MethodPost :: string where "MethodPost = ''POST''"
definition MethodPut :: string where "MethodPut = ''PUT''"
definition MethodPatch :: string where "MethodPatch = ''PATCH''"
definition MethodHead :: string where "MethodHead = ''HEAD''"
definition MethodOptions :: string where "MethodOptions = ''OPTIONS''"
definition MethodDelete :: string where "MethodDelete = ''DELETE''"
definition MethodConnect :: string where "MethodConnect = ''CONNECT''"
definition MethodTrace :: string where "MethodTrace = ''TRACE''"

text \<open>
  The value an \<^verbatim>\<open>IRoutes\<close> method returns: the engine when the group is the root group, the
  group itself otherwise.
\<close>

datatype IRoutes = TheEngine nat | TheGroup RouterGroup

definition returnObj :: "RouterGroup \<Rightarrow> IRoutes" where
  "returnObj grp = (if root grp then TheEngine (engine grp) else TheGroup grp)"

text \<open>
  \<^verbatim>\<open>Use\<close> assigns to the field \<^verbatim>\<open>Handlers\<close> of the group it is called on: it returns the
  group as it is after the call.
\<close>

definition Use ::
  "(nat \<Rightarrow> nat \<Rightarrow> nat) \<Rightarrow> RouterGroup \<Rightarrow> slice \<Rightarrow> state \<Rightarrow> IRoutes \<times> RouterGroup \<times> state" where
  "Use grow grp middleware st =
     (let (hs, m) = append_slice grow (Handlers grp) middleware (mem st);
          grp' = grp\<lparr>Handlers := hs\<rparr>
      in (returnObj grp', grp', st\<lparr>mem := m\<rparr>))"

text \<open>
  \<^verbatim>\<open>combineHandlers\<close>. The constant \<^verbatim>\<open>rConsts.AbortIndex\<close> is declared outside the sources:
  it is the parameter \<open>AbortIndex\<close>.
\<close>

definition combineHandlers :: "int \<Rightarrow> RouterGroup \<Rightarrow> slice \<Rightarrow> state \<Rightarrow> slice result" where
  "combineHandlers AbortIndex grp handlers st =
     (let finalSize = sl_len (Handlers grp) + sl_len handlers in
      if int finalSize \<ge> AbortIndex then Inl (Panic ''too many handlers'', st)
      else
        let (mergedHandlers, m1) = make_slice finalSize (mem st);
            m2 = copy_slice mergedHandlers (Handlers grp) m1
        in case slice_from mergedHandlers (sl_len (Handlers grp)) of
             Inl p \<Rightarrow> Inl (p, st\<lparr>mem := m2\<rparr>)
           | Inr rest \<Rightarrow> Inr (mergedHandlers, st\<lparr>mem := copy_slice rest handlers m2\<rparr>))"

definition calculateAbsolutePath :: "RouterGroup \<Rightarrow> string \<Rightarrow> panic + string" where
  "calculateAbsolutePath grp relativePath = joinPaths (basePath grp) relativePath"

definition Group :: "int \<Rightarrow> RouterGroup \<Rightarrow> string \<Rightarrow> slice \<Rightarrow> state \<Rightarrow> RouterGroup result" where
  "Group AbortIndex grp relativePath handlers st =
     and_then (combineHandlers AbortIndex grp handlers st) (\<lambda>merged st1.
       case calculateAbsolutePath grp relativePath of
         Inl p \<Rightarrow> Inl (p, st1)
       | Inr absolutePath \<Rightarrow>
           Inr (\<lparr>Handlers = merged, basePath = absolutePath, engine = engine grp,
                 root = False\<rparr>, st1))"

definition BasePath :: "RouterGroup \<Rightarrow> string" where
  "BasePath grp = basePath grp"

definition handle ::
  "int \<Rightarrow> RouterGroup \<Rightarrow> string \<Rightarrow> string \<Rightarrow> slice \<Rightarrow> state \<Rightarrow> IRoutes result" where
  "handle AbortIndex grp httpMethod relativePath handlers st =
     (case calculateAbsolutePath grp relativePath of
        Inl p \<Rightarrow> Inl (p, st)
      | Inr absolutePath \<Rightarrow>
          and_then (combineHandlers AbortIndex grp handlers st) (\<lambda>merged st1.
            Inr (returnObj grp, addRoute (engine grp) httpMethod absolutePath merged st1)))"

text \<open>
  The regular expression \<^verbatim>\<open>^[A-Z]+$\<close> matches the strings of one or more bytes between
  \<^verbatim>\<open>A\<close> and \<^verbatim>\<open>Z\<close>.
\<close>

definition upper_letter :: "char \<Rightarrow> bool" where
  "upper_letter c \<longleftrightarrow> 65 \<le> (of_char c :: nat) \<and> (of_char c :: nat) \<le> 90"

definition upperLetterReg_MatchString :: "string \<Rightarrow> bool" where
  "upperLetterReg_MatchString s \<longleftrightarrow> s \<noteq> [] \<and> list_all upper_letter s"

definition Handle ::
  "int \<Rightarrow> RouterGroup \<Rightarrow> string \<Rightarrow> string \<Rightarrow> slice \<Rightarrow> state \<Rightarrow> IRoutes result" where
  "Handle AbortIndex grp httpMethod relativePath handlers st =
     (if \<not> upperLetterReg_MatchString httpMethod
        then Inl (Panic (''http method '' @ httpMethod @ '' is not valid''), st)
      else handle AbortIndex grp httpMethod relativePath handlers st)"

definition POST :: "int \<Rightarrow> RouterGroup \<Rightarrow> string \<Rightarrow> slice \<Rightarrow> state \<Rightarrow> IRoutes result" where
  "POST AbortIndex grp relativePath handlers st =
     handle AbortIndex grp MethodPost relativePath handlers st"

definition GET :: "int \<Rightarrow> RouterGroup \<Rightarrow> string \<Rightarrow> slice \<Rightarrow> state \<Rightarrow> IRoutes result" where
  "GET AbortIndex grp relativePath handlers st =
     handle AbortIndex grp MethodGet relativePath handlers st"

definition DELETE :: "int \<Rightarrow> RouterGroup \<Rightarrow> string \<Rightarrow> slice \<Rightarrow> state \<Rightarrow> IRoutes result" where
  "DELETE AbortIndex grp relativePath handlers st =
     handle AbortIndex grp MethodDelete relativePath handlers st"

definition PATCH :: "int \<Rightarrow> RouterGroup \<Rightarrow> string \<Rightarrow> slice \<Rightarrow> state \<Rightarrow> IRoutes result" where
  "PATCH AbortIndex grp relativePath handlers st =
     handle AbortIndex grp MethodPatch relativePath handlers st"

definition PUT :: "int \<Rightarrow> RouterGroup \<Rightarrow> string \<Rightarrow> slice \<Rightarrow> state \<Rightarrow> IRoutes result" where
  "PUT AbortIndex grp relativePath handlers st =
     handle AbortIndex grp MethodPut relativePath handlers st"

definition OPTIONS :: "int \<Rightarrow> RouterGroup \<Rightarrow> string \<Rightarrow> slice \<Rightarrow> state \<Rightarrow> IRoutes result" where
  "OPTIONS AbortIndex grp relativePath handlers st =
     handle AbortIndex grp MethodOptions relativePath handlers st"

definition HEAD :: "int \<Rightarrow> RouterGroup \<Rightarrow> string \<Rightarrow> slice \<Rightarrow> state \<Rightarrow> IRoutes result" where
  "HEAD AbortIndex grp relativePath handlers st =
     handle AbortIndex grp MethodHead relativePath handlers st"

definition Any :: "int \<Rightarrow> RouterGroup \<Rightarrow> string \<Rightarrow> slice \<Rightarrow> state \<Rightarrow> IRoutes result" where
  "Any AbortIndex grp relativePath handlers st =
     and_then (handle AbortIndex grp MethodGet relativePath handlers st) (\<lambda>_ st.
     and_then (handle AbortIndex grp MethodPost relativePath handlers st) (\<lambda>_ st.
     and_then (handle AbortIndex grp MethodPut relativePath handlers st) (\<lambda>_ st.
     and_then (handle AbortIndex grp MethodPatch relativePath handlers st) (\<lambda>_ st.
     and_then (handle AbortIndex grp MethodHead relativePath handlers st) (\<lambda>_ st.
     and_then (handle AbortIndex grp MethodOptions relativePath handlers st) (\<lambda>_ st.
     and_then (handle AbortIndex grp MethodDelete relativePath handlers st) (\<lambda>_ st.
     and_then (handle AbortIndex grp MethodConnect relativePath handlers st) (\<lambda>_ st.
     and_then (handle AbortIndex grp MethodTrace relativePath handlers st) (\<lambda>_ st.
       Inr (returnObj grp, st))))))))))"

text \<open>The methods \<^verbatim>\<open>Any\<close> registers, in the order of its calls.\<close>

definition any_methods :: "string list" where
  "any_methods = [MethodGet, MethodPost, MethodPut, MethodPatch, MethodHead, MethodOptions,
                  MethodDelete, MethodConnect, MethodTrace]"

text \<open>A call \<^verbatim>\<open>f(relativePath, handler)\<close> of a variadic method with one handler.\<close>

definition call_with ::
  "HandlerFunc list \<Rightarrow> (slice \<Rightarrow> state \<Rightarrow> 'a result) \<Rightarrow> state \<Rightarrow> 'a result" where
  "call_with args f st = (let (hs, m) = variadic args (mem st) in f hs (st\<lparr>mem := m\<rparr>))"

definition StaticFile ::
  "int \<Rightarrow> RouterGroup \<Rightarrow> string \<Rightarrow> string \<Rightarrow> state \<Rightarrow> IRoutes result" where
  "StaticFile AbortIndex grp relativePath filepath st =
     (if CHR '':'' \<in> set relativePath \<or> CHR ''*'' \<in> set relativePath
        then Inl (Panic ''URL parameters can not be used when serving a static file'', st)
      else
        let handler = ServeFile filepath in
        and_then (call_with [handler] (GET AbortIndex grp relativePath) st) (\<lambda>_ st.
        and_then (call_with [handler] (HEAD AbortIndex grp relativePath) st) (\<lambda>_ st.
          Inr (returnObj grp, st))))"

definition StaticFS :: "int \<Rightarrow> RouterGroup \<Rightarrow> string \<Rightarrow> FS \<Rightarrow> state \<Rightarrow> IRoutes result" where
  "StaticFS AbortIndex grp relativePath fs st =
     (if CHR '':'' \<in> set relativePath \<or> CHR ''*'' \<in> set relativePath
        then Inl (Panic ''URL parameters can not be used when serving a static folder'', st)
      else
        let handler = NewRequestHandler fs;
            urlPattern = Join [relativePath, ''/*filepath'']
        in
        and_then (call_with [handler] (GET AbortIndex grp urlPattern) st) (\<lambda>_ st.
        and_then (call_with [handler] (HEAD AbortIndex grp urlPattern) st) (\<lambda>_ st.
          Inr (returnObj grp, st))))"

definition Static :: "int \<Rightarrow> RouterGroup \<Rightarrow> string \<Rightarrow> string \<Rightarrow> state \<Rightarrow> IRoutes result" where
  "Static AbortIndex grp relativePath rootdir st =
     StaticFS AbortIndex grp relativePath (FS rootdir) st"

text \<open>
  What the engine has been given: for every recorded call of \<^verbatim>\<open>addRoute\<close> the method, the
  path and the elements of the handler chain.
\<close>

definition registered :: "state \<Rightarrow> (string \<times> string \<times> HandlerFunc list) list" where
  "registered st = map (\<lambda>x. (rt_method x, rt_path x, elems (mem st) (rt_handlers x))) (routes st)"

text \<open>What the engine has been given when a call is over, whether it returned or panicked.\<close>

definition registrations_of :: "'a result \<Rightarrow> (string \<times> string \<times> HandlerFunc list) list" where
  "registrations_of x = (case x of Inl (p, st) \<Rightarrow> registered st | Inr (v, st) \<Rightarrow> registered st)"

definition panic_of :: "'a result \<Rightarrow> panic option" where
  "panic_of x = (case x of Inl (p, st) \<Rightarrow> Some p | Inr (v, st) \<Rightarrow> None)"

text \<open>The reserved characters that the static routes reject.\<close>

definition has_url_parameters :: "string \<Rightarrow> bool" where
  "has_url_parameters relativePath \<longleftrightarrow>
     CHR '':'' \<in> set relativePath \<or> CHR ''*'' \<in> set relativePath"

text \<open>Every recorded handler chain is a slice of the memory.\<close>

definition wf_state :: "state \<Rightarrow> bool" where
  "wf_state st \<longleftrightarrow> list_all (\<lambda>x. valid_slice (mem st) (rt_handlers x)) (routes st)"

text \<open>
  The path \<^verbatim>\<open>calculateAbsolutePath\<close> returns (it never panics, see \<open>calculateAbsolutePath_total\<close>
  below).
\<close>

definition absolute_path :: "RouterGroup \<Rightarrow> string \<Rightarrow> string" where
  "absolute_path grp relativePath =
     (case calculateAbsolutePath grp relativePath of Inr p \<Rightarrow> p | Inl e \<Rightarrow> [])"

text \<open>
  The state a registration is expected to leave: one new array that holds the chain of the
  group followed by the handlers given, and one more call of \<^verbatim>\<open>addRoute\<close>, with a slice on
  that array. Lemma \<open>handle_ok\<close> below shows that \<^verbatim>\<open>handle\<close> leaves this state.
\<close>

definition after_register :: "RouterGroup \<Rightarrow> string \<Rightarrow> string \<Rightarrow> slice \<Rightarrow> state \<Rightarrow> state" where
  "after_register grp httpMethod relativePath handlers st =
     \<lparr>mem = mem st @ [elems (mem st) (Handlers grp) @ elems (mem st) handlers],
      routes = routes st @
        [\<lparr>rt_engine = engine grp, rt_method = httpMethod,
          rt_path = absolute_path grp relativePath,
          rt_handlers = \<lparr>sl_arr = length (mem st), sl_off = 0,
                          sl_len = sl_len (Handlers grp) + sl_len handlers,
                          sl_cap = sl_len (Handlers grp) + sl_len handlers\<rparr>\<rparr>]\<rparr>"

text \<open>
  The end-to-end scenario of the specification: a root group with base path \<^verbatim>\<open>/\<close> and no
  handler, \<^verbatim>\<open>root.Use(authMW)\<close>, then
  \<^verbatim>\<open>root.Group("/api", loggingMW).GET("/users", handler)\<close>, starting from an empty memory
  and an empty route table.
\<close>

definition scenario_root :: RouterGroup where
  "scenario_root = \<lparr>Handlers = nil_slice, basePath = ''/'', engine = 0, root = True\<rparr>"

definition end_to_end ::
  "int \<Rightarrow> (nat \<Rightarrow> nat \<Rightarrow> nat) \<Rightarrow> HandlerFunc \<Rightarrow> HandlerFunc \<Rightarrow> HandlerFunc
     \<Rightarrow> IRoutes result" where
  "end_to_end AbortIndex grow authMW loggingMW handler =
     (let st0 = \<lparr>mem = [], routes = []\<rparr>;
          (args, m) = variadic [authMW] (mem st0);
          (r1, root1, st1) = Use grow scenario_root args (st0\<lparr>mem := m\<rparr>)
      in and_then (call_with [loggingMW] (Group AbortIndex root1 ''/api'') st1) (\<lambda>api st2.
           call_with [handler] (GET AbortIndex api ''/users'') st2))"

text \<open>
  A configuration at the limit, for \<^verbatim>\<open>AbortIndex = 63\<close>: a root group that already has 62
  handlers (as after \<^verbatim>\<open>Use\<close> with 62 middlewares), and one more handler to add.
\<close>

definition full_state :: state where
  "full_state = \<lparr>mem = [replicate 62 (Func 0), [Func 1]], routes = []\<rparr>"

definition full_group :: RouterGroup where
  "full_group =
     \<lparr>Handlers = \<lparr>sl_arr = 0, sl_off = 0, sl_len = 62, sl_cap = 62\<rparr>,
      basePath = ''/'', engine = 0, root = True\<rparr>"

definition one_handler :: slice where
  "one_handler = \<lparr>sl_arr = 1, sl_off = 0, sl_len = 1, sl_cap = 1\<rparr>"

text \<open>A small configuration: a group with two handlers, and the same handler to add.\<close>

definition small_state :: state where
  "small_state = \<lparr>mem = [[Func 10, Func 11], [Func 1]], routes = []\<rparr>"

definition small_group :: RouterGroup where
  "small_group =
     \<lparr>Handlers = \<lparr>sl_arr = 0, sl_off = 0, sl_len = 2, sl_cap = 2\<rparr>,
      basePath = ''/v1'', engine = 0, root = False\<rparr>"

section \<open>Run and shutdown orchestration (hertz.go)\<close>

text \<open>
  The select statement of \<^verbatim>\<open>waitSignal\<close> receives either a signal or the value sent on
  the run-error channel; which of the two wins the race is an input of the model.
  A Go \<^verbatim>\<open>error\<close> is an \<open>error option\<close>, with \<open>None\<close> for \<^verbatim>\<open>nil\<close>.
\<close>

datatype Signal = SIGHUP | SIGINT | SIGTERM | OtherSignal string

datatype error = Error string

datatype received = FromSignals Signal | FromErrCh "error option"

text \<open>\<^verbatim>\<open>sig.String()\<close> on Linux.\<close>

fun Signal_String :: "Signal \<Rightarrow> string" where
  "Signal_String SIGHUP = ''hangup''"
| "Signal_String SIGINT = ''interrupt''"
| "Signal_String SIGTERM = ''terminated''"
| "Signal_String (OtherSignal name) = name"

text \<open>
  What \<^verbatim>\<open>Spin\<close> does to its collaborators, in order: the calls to the engine, to the
  signal package, to the context package and to the logger.
\<close>

datatype effect =
    AppendOnRunHook
  | GoRun
  | SignalNotify "Signal list"
  | Infof_ReceivedSignal Signal
  | Errorf_ReceiveCloseSignal error
  | EngineClose
  | Errorf_Close error
  | Infof_BeginGraceful int
  | WithTimeout int
  | Shutdown int
  | Errorf_Shutdown error
  | Cancel

text \<open>
  The environment of one call of \<^verbatim>\<open>Spin\<close>: whether \<^verbatim>\<open>signal.Ignored(syscall.SIGHUP)\<close>
  holds, what the select receives, and what \<^verbatim>\<open>Engine.Close\<close> and \<^verbatim>\<open>Shutdown\<close> return.
\<close>

record env =
  sighup_ignored :: bool
  select_receives :: received
  close_result :: "error option"
  shutdown_result :: "error option"

definition signalToNotify :: "bool \<Rightarrow> Signal list" where
  "signalToNotify ignored =
     (if ignored then [SIGINT, SIGTERM] else [SIGINT, SIGHUP, SIGTERM])"

definition waitSignal :: "env \<Rightarrow> effect list \<times> error option" where
  "waitSignal e =
     (let notify = [SignalNotify (signalToNotify (sighup_ignored e))] in
      case select_receives e of
        FromSignals sig \<Rightarrow>
          (if sig = SIGTERM then (notify, Some (Error (Signal_String sig)))
           else if sig = SIGHUP \<or> sig = SIGINT then (notify @ [Infof_ReceivedSignal sig], None)
           else (notify, None))
      | FromErrCh err \<Rightarrow> (notify, err))"

text \<open>
  The Hertz struct: the custom signal waiter (\<^verbatim>\<open>nil\<close> unless
  \<^verbatim>\<open>SetCustomSignalWaiter\<close> was called) and the option \<^verbatim>\<open>ExitWaitTimeout\<close>, a duration in
  nanoseconds.
\<close>

record Hertz =
  signalWaiter :: "(env \<Rightarrow> effect list \<times> error option) option"
  ExitWaitTimeout :: int

definition SetCustomSignalWaiter ::
  "Hertz \<Rightarrow> (env \<Rightarrow> effect list \<times> error option) \<Rightarrow> Hertz" where
  "SetCustomSignalWaiter h f = h\<lparr>signalWaiter := Some f\<rparr>"

definition Second :: int where
  "Second = 1000000000"

text \<open>Go's integer division truncates towards zero.\<close>

definition go_div :: "int \<Rightarrow> int \<Rightarrow> int" where
  "go_div a b = sgn a * sgn b * (\<bar>a\<bar> div \<bar>b\<bar>)"

definition Spin :: "Hertz \<Rightarrow> env \<Rightarrow> effect list" where
  "Spin h e =
     (let waiter = (case signalWaiter h of None \<Rightarrow> waitSignal | Some f \<Rightarrow> f);
          (tr, err) = waiter e;
          started = [AppendOnRunHook, GoRun] @ tr
      in case err of
           Some x \<Rightarrow>
             started @ [Errorf_ReceiveCloseSignal x, EngineClose]
               @ (case close_result e of Some y \<Rightarrow> [Errorf_Close y] | None \<Rightarrow> [])
         | None \<Rightarrow>
             started
               @ [Infof_BeginGraceful (go_div (ExitWaitTimeout h) Second),
                  WithTimeout (ExitWaitTimeout h), Shutdown (ExitWaitTimeout h)]
               @ (case shutdown_result e of Some y \<Rightarrow> [Errorf_Shutdown y] | None \<Rightarrow> [])
               @ [Cancel])"

text \<open>
  Reading a trace of effects: the subscriptions made with \<^verbatim>\<open>signal.Notify\<close>, the timeouts of
  the deadline scopes created with \<^verbatim>\<open>context.WithTimeout\<close>, the deadlines of the scopes
  \<^verbatim>\<open>Shutdown\<close> was called with, and the number of calls of \<^verbatim>\<open>Engine.Close\<close>.
\<close>

fun notify_of :: "effect \<Rightarrow> Signal list option" where
  "notify_of (SignalNotify l) = Some l"
| "notify_of x = None"

fun deadline_of :: "effect \<Rightarrow> int option" where
  "deadline_of (WithTimeout t) = Some t"
| "deadline_of x = None"

fun shutdown_of :: "effect \<Rightarrow> int option" where
  "shutdown_of (Shutdown t) = Some t"
| "shutdown_of x = None"

definition subscriptions :: "effect list \<Rightarrow> Signal list list" where
  "subscriptions tr = List.map_filter notify_of tr"

definition deadline_scopes :: "effect list \<Rightarrow> int list" where
  "deadline_scopes tr = List.map_filter deadline_of tr"

definition shutdown_calls :: "effect list \<Rightarrow> int list" where
  "shutdown_calls tr = List.map_filter shutdown_of tr"

definition close_calls :: "effect list \<Rightarrow> nat" where
  "close_calls tr = length (filter (\<lambda>x. x = EngineClose) tr)"

text \<open>
  The two paths of \<^verbatim>\<open>Spin\<close>. On the graceful path one deadline scope is created, with the
  exit-wait timeout, \<^verbatim>\<open>Shutdown\<close> is called once with it and \<^verbatim>\<open>Close\<close> is not called; on
  the immediate-close path \<^verbatim>\<open>Close\<close> is called once, no deadline scope is created and
  \<^verbatim>\<open>Shutdown\<close> is not called.
\<close>

definition graceful_path :: "Hertz \<Rightarrow> effect list \<Rightarrow> bool" where
  "graceful_path h tr \<longleftrightarrow>
     deadline_scopes tr = [ExitWaitTimeout h] \<and> shutdown_calls tr = [ExitWaitTimeout h]
     \<and> close_calls tr = 0"

definition immediate_close_path :: "effect list \<Rightarrow> bool" where
  "immediate_close_path tr \<longleftrightarrow>
     deadline_scopes tr = [] \<and> shutdown_calls tr = [] \<and> close_calls tr = 1"

section \<open>Properties of path composition and of the route groups\<close>

lemma length_elems: "valid_slice m s \<Longrightarrow> length (elems m s) = sl_len s"
  by (auto simp: valid_slice_def elems_def)

lemma elems_nil [simp]: "sl_len s = 0 \<Longrightarrow> elems m s = []"
  by (simp add: elems_def)

lemma valid_alloc: "valid_slice m s \<Longrightarrow> valid_slice (m @ [a]) s"
  by (auto simp: valid_slice_def nth_append)

lemma elems_alloc: "valid_slice m s \<Longrightarrow> elems (m @ [a]) s = elems m s"
  by (auto simp: valid_slice_def elems_def nth_append)

lemma store_last: "store (m @ [a]) (length m) i vs = m @ [take i a @ vs @ drop (i + length vs) a]"
  by (simp add: store_def)

lemma copy_into_new:
  assumes "valid_slice m src" and "sl_arr dst = length m" and "sl_len src \<le> sl_len dst"
  shows "copy_slice dst src (m @ [a]) =
         m @ [take (sl_off dst) a @ elems m src @ drop (sl_off dst + sl_len src) a]"
proof (cases "sl_len src = 0")
  case True
  then show ?thesis by (simp add: copy_slice_def)
next
  case False
  with assms show ?thesis
    by (simp add: copy_slice_def store_last elems_alloc length_elems min_absorb2)
qed

lemma combineHandlers_ok:
  assumes g: "valid_slice (mem st) (Handlers grp)"
    and h: "valid_slice (mem st) handlers"
    and lt: "int (sl_len (Handlers grp) + sl_len handlers) < AbortIndex"
  shows "combineHandlers AbortIndex grp handlers st =
         Inr (\<lparr>sl_arr = length (mem st), sl_off = 0,
               sl_len = sl_len (Handlers grp) + sl_len handlers,
               sl_cap = sl_len (Handlers grp) + sl_len handlers\<rparr>,
              st\<lparr>mem := mem st @ [elems (mem st) (Handlers grp) @ elems (mem st) handlers]\<rparr>)"
proof -
  let ?k = "sl_len (Handlers grp)" and ?j = "sl_len handlers"
  let ?m = "mem st"
  let ?merged = "\<lparr>sl_arr = length ?m, sl_off = 0, sl_len = ?k + ?j, sl_cap = ?k + ?j\<rparr>"
  let ?rest = "\<lparr>sl_arr = length ?m, sl_off = ?k, sl_len = ?j, sl_cap = ?j\<rparr>"
  let ?m2 = "?m @ [elems ?m (Handlers grp) @ replicate ?j NilFunc]"
  have lg: "length (elems ?m (Handlers grp)) = ?k" and lh: "length (elems ?m handlers) = ?j"
    using g h by (simp_all add: length_elems)
  have c1: "copy_slice ?merged (Handlers grp) (?m @ [replicate (?k + ?j) NilFunc]) = ?m2"
    using g by (simp add: copy_into_new replicate_add[symmetric])
  have c2: "copy_slice ?rest handlers ?m2
            = ?m @ [elems ?m (Handlers grp) @ elems ?m handlers]"
    using h lg lh by (simp add: copy_into_new)
  have sf: "slice_from ?merged ?k = Inr ?rest"
    by (simp add: slice_from_def)
  from lt show ?thesis
    by (simp add: combineHandlers_def make_slice_def Let_def c1 c2 sf)
qed

lemma combineHandlers_panics:
  "AbortIndex \<le> int (sl_len (Handlers grp) + sl_len handlers) \<Longrightarrow>
   combineHandlers AbortIndex grp handlers st = Inl (Panic ''too many handlers'', st)"
  by (simp add: combineHandlers_def)


lemma Clean_nonempty: "Clean p \<noteq> []"
  by (simp add: Clean_def Let_def)

lemma Join_nonempty: "q \<noteq> [] \<Longrightarrow> Join [p, q] \<noteq> []"
  by (simp add: Join_def Clean_nonempty)

lemma lastChar_nonempty: "s \<noteq> [] \<Longrightarrow> lastChar s = Inr (last s)"
  by (simp add: lastChar_def last_conv_nth)

lemma joinPaths_never_panics: "\<exists>p. joinPaths b r = Inr p"
  by (simp add: joinPaths_def Let_def lastChar_nonempty Join_nonempty)

lemma calculateAbsolutePath_total:
  "calculateAbsolutePath grp rel = Inr (absolute_path grp rel)"
  using joinPaths_never_panics[of "basePath grp" rel]
  by (auto simp: absolute_path_def calculateAbsolutePath_def)

lemma new_slice_valid:
  "length a = n \<Longrightarrow> valid_slice (m @ [a]) \<lparr>sl_arr = length m, sl_off = 0, sl_len = n, sl_cap = n\<rparr>"
  by (simp add: valid_slice_def)

lemma new_slice_elems:
  "length a = n \<Longrightarrow> elems (m @ [a]) \<lparr>sl_arr = length m, sl_off = 0, sl_len = n, sl_cap = n\<rparr> = a"
  by (auto simp: elems_def)

lemma handle_ok:
  assumes "valid_slice (mem st) (Handlers grp)" and "valid_slice (mem st) handlers"
    and "int (sl_len (Handlers grp) + sl_len handlers) < AbortIndex"
  shows "handle AbortIndex grp httpMethod rel handlers st =
         Inr (returnObj grp, after_register grp httpMethod rel handlers st)"
  using assms
  by (simp add: handle_def calculateAbsolutePath_total combineHandlers_ok and_then_def
        addRoute_def after_register_def)

lemma handle_panics:
  "AbortIndex \<le> int (sl_len (Handlers grp) + sl_len handlers) \<Longrightarrow>
   handle AbortIndex grp httpMethod rel handlers st = Inl (Panic ''too many handlers'', st)"
  by (simp add: handle_def calculateAbsolutePath_total combineHandlers_panics and_then_def)

lemma after_register_valid:
  "valid_slice (mem st) s \<Longrightarrow> valid_slice (mem (after_register grp k rel hs st)) s"
  by (simp add: after_register_def valid_alloc)

lemma after_register_elems:
  "valid_slice (mem st) s \<Longrightarrow> elems (mem (after_register grp k rel hs st)) s = elems (mem st) s"
  by (simp add: after_register_def elems_alloc)

lemma after_register_wf:
  assumes "wf_state st" and "valid_slice (mem st) (Handlers grp)" and "valid_slice (mem st) hs"
  shows "wf_state (after_register grp k rel hs st)"
  using assms
  by (simp add: wf_state_def after_register_def list_all_iff valid_alloc new_slice_valid length_elems)

lemma after_register_registered:
  assumes "wf_state st" and "valid_slice (mem st) (Handlers grp)" and "valid_slice (mem st) hs"
  shows "registered (after_register grp k rel hs st) =
         registered st @ [(k, absolute_path grp rel, elems (mem st) (Handlers grp) @ elems (mem st) hs)]"
  using assms
  by (simp add: wf_state_def registered_def after_register_def list_all_iff elems_alloc
        new_slice_elems length_elems)


lemma Any_ok:
  assumes g: "valid_slice (mem st) (Handlers grp)" and h: "valid_slice (mem st) handlers"
    and lt: "int (sl_len (Handlers grp) + sl_len handlers) < AbortIndex"
  shows "Any AbortIndex grp rel handlers st =
         Inr (returnObj grp,
           foldl (\<lambda>s k. after_register grp k rel handlers s) st any_methods)"
  using assms
  by (simp add: Any_def and_then_def handle_ok after_register_valid any_methods_def)

lemma fold_registered:
  assumes "wf_state st" and "valid_slice (mem st) (Handlers grp)" and "valid_slice (mem st) hs"
  shows "registered (foldl (\<lambda>s k. after_register grp k rel hs s) st ks) =
         registered st @
           map (\<lambda>k. (k, absolute_path grp rel, elems (mem st) (Handlers grp) @ elems (mem st) hs)) ks
         \<and> wf_state (foldl (\<lambda>s k. after_register grp k rel hs s) st ks)"
  using assms
proof (induction ks arbitrary: st)
  case Nil
  then show ?case by simp
next
  case (Cons k ks)
  let ?st1 = "after_register grp k rel hs st"
  have "wf_state ?st1" "valid_slice (mem ?st1) (Handlers grp)" "valid_slice (mem ?st1) hs"
    using Cons.prems by (simp_all add: after_register_wf after_register_valid)
  from Cons.IH[OF this] Cons.prems show ?case
    by (simp add: after_register_registered after_register_elems)
qed

lemma store_other: "a \<noteq> b \<Longrightarrow> store m a i vs ! b = m ! b"
  by (simp add: store_def)

lemma length_store: "length (store m a i vs) = length m"
  by (simp add: store_def)

lemma append_slice_frame:
  assumes c: "valid_slice m c"
    and d: "sl_arr c \<noteq> sl_arr s \<or> sl_cap c = 0 \<or> sl_cap s = 0"
  shows "elems (snd (append_slice grow s t m)) c = elems m c
       \<and> valid_slice (snd (append_slice grow s t m)) c"
proof (cases "sl_len s + sl_len t \<le> sl_cap s")
  case False
  with c show ?thesis
    by (simp add: append_slice_def Let_def elems_alloc valid_alloc)
next
  case True
  show ?thesis
  proof (cases "sl_len t = 0 \<or> sl_cap c = 0")
    case True
    with \<open>sl_len s + sl_len t \<le> sl_cap s\<close> c show ?thesis
      by (auto simp: append_slice_def Let_def valid_slice_def elems_def)
  next
    case False
    with True d have ne: "sl_arr s \<noteq> sl_arr c" by auto
    with True False c show ?thesis
      by (simp add: append_slice_def Let_def valid_slice_def elems_def store_other length_store)
  qed
qed

lemma Use_mem:
  "mem (snd (snd (Use grow a mw st))) = snd (append_slice grow (Handlers a) mw (mem st))"
  by (simp add: Use_def Let_def split: prod.splits)

lemma Use_frame:
  assumes "valid_slice (mem st) c"
    and "sl_arr c \<noteq> sl_arr (Handlers a) \<or> sl_cap c = 0 \<or> sl_cap (Handlers a) = 0"
  shows "elems (mem (snd (snd (Use grow a mw st)))) c = elems (mem st) c
       \<and> valid_slice (mem (snd (snd (Use grow a mw st)))) c"
  using append_slice_frame[OF assms, of grow mw]
  by (simp add: Use_mem)

lemma Group_ok:
  assumes "valid_slice (mem st) (Handlers grp)" and "valid_slice (mem st) handlers"
    and "int (sl_len (Handlers grp) + sl_len handlers) < AbortIndex"
  shows "Group AbortIndex grp rel handlers st =
         Inr (\<lparr>Handlers = \<lparr>sl_arr = length (mem st), sl_off = 0,
                             sl_len = sl_len (Handlers grp) + sl_len handlers,
                             sl_cap = sl_len (Handlers grp) + sl_len handlers\<rparr>,
               basePath = absolute_path grp rel, engine = engine grp, root = False\<rparr>,
              st\<lparr>mem := mem st @ [elems (mem st) (Handlers grp) @ elems (mem st) handlers]\<rparr>)"
  using assms
  by (simp add: Group_def combineHandlers_ok and_then_def calculateAbsolutePath_total)

lemma Group_panics:
  "AbortIndex \<le> int (sl_len (Handlers grp) + sl_len handlers) \<Longrightarrow>
   Group AbortIndex grp rel handlers st = Inl (Panic ''too many handlers'', st)"
  by (simp add: Group_def combineHandlers_panics and_then_def)

lemma joinPaths_api: "joinPaths ''/'' ''/api'' = Inr ''/api''"
  by code_simp

lemma joinPaths_users: "joinPaths ''/api'' ''/users'' = Inr ''/api/users''"
  by code_simp


text \<open>
  Claim C2. \<^verbatim>\<open>joinPaths(b, r)\<close> never panics. It returns \<open>b\<close> unchanged when \<open>r\<close> is empty;
  otherwise it returns the canonical join \<^verbatim>\<open>path.Join(b, r)\<close>, except that when \<open>r\<close> ends
  with a slash and the canonical join does not, one slash is appended to the canonical
  join, so that the result ends with exactly one slash.
\<close>

theorem joinPaths_spec:
  "joinPaths b r =
     Inr (if r = [] then b
          else if last r = CHR ''/'' \<and> last (Join [b, r]) \<noteq> CHR ''/''
            then Join [b, r] @ ''/''
          else Join [b, r])
   \<and> (r \<noteq> [] \<and> last r = CHR ''/'' \<and> last (Join [b, r]) \<noteq> CHR ''/'' \<longrightarrow>
        (\<exists>p. joinPaths b r = Inr (p @ ''/'') \<and> p \<noteq> [] \<and> last p \<noteq> CHR ''/''))"
  by (simp add: joinPaths_def Let_def lastChar_nonempty Join_nonempty)

lemma Join_api_users: "Join [''/api'', ''users/''] = ''/api/users''"
  by code_simp

theorem joinPaths_spec_witness:
  "''users/'' \<noteq> [] \<and> last ''users/'' = CHR ''/'' \<and> last (Join [''/api'', ''users/'']) \<noteq> CHR ''/''
   \<and> joinPaths ''/api'' ''users/'' = Inr ''/api/users/''"
  using joinPaths_spec[of "''/api''" "''users/''"]
  by (simp add: Join_api_users)

text \<open>
  Claim C3. \<^verbatim>\<open>combineHandlers\<close> panics if and only if the length of the chain of the group
  plus the number of handlers given is at least \<^verbatim>\<open>AbortIndex\<close>, and the panic is
  \<^verbatim>\<open>too many handlers\<close>. When the total is below the limit it returns a slice of exactly
  that length, on a new array, which holds the chain of the group followed by the handlers
  given; nothing else in the memory changes.
\<close>

theorem combineHandlers_spec:
  assumes "valid_slice (mem st) (Handlers grp)" and "valid_slice (mem st) handlers"
  shows "((\<exists>p st'. combineHandlers AbortIndex grp handlers st = Inl (p, st'))
            \<longleftrightarrow> AbortIndex \<le> int (sl_len (Handlers grp) + sl_len handlers))
       \<and> (AbortIndex \<le> int (sl_len (Handlers grp) + sl_len handlers) \<longrightarrow>
            combineHandlers AbortIndex grp handlers st = Inl (Panic ''too many handlers'', st))
       \<and> (int (sl_len (Handlers grp) + sl_len handlers) < AbortIndex \<longrightarrow>
            (\<exists>merged st'. combineHandlers AbortIndex grp handlers st = Inr (merged, st')
               \<and> elems (mem st') merged = elems (mem st) (Handlers grp) @ elems (mem st) handlers
               \<and> sl_len merged = sl_len (Handlers grp) + sl_len handlers
               \<and> length (elems (mem st') merged) = sl_len (Handlers grp) + sl_len handlers
               \<and> valid_slice (mem st') merged
               \<and> sl_arr merged = length (mem st)
               \<and> mem st' = mem st @ [elems (mem st') merged]
               \<and> routes st' = routes st))"
proof (cases "AbortIndex \<le> int (sl_len (Handlers grp) + sl_len handlers)")
  case True
  then show ?thesis
    by (simp add: combineHandlers_panics)
next
  case False
  then have lt: "int (sl_len (Handlers grp) + sl_len handlers) < AbortIndex"
    by simp
  have len: "length (elems (mem st) (Handlers grp) @ elems (mem st) handlers)
             = sl_len (Handlers grp) + sl_len handlers"
    using assms by (simp add: length_elems)
  show ?thesis
    using lt len
    by (simp add: combineHandlers_ok[OF assms lt] new_slice_elems new_slice_valid)
qed


lemma small_valid:
  "valid_slice (mem small_state) (Handlers small_group)"
  "valid_slice (mem small_state) one_handler"
  "wf_state small_state"
  by (simp_all add: valid_slice_def small_state_def small_group_def one_handler_def wf_state_def)

lemma small_elems:
  "elems (mem small_state) (Handlers small_group) = [Func 10, Func 11]"
  "elems (mem small_state) one_handler = [Func 1]"
  "sl_len (Handlers small_group) = 2" "sl_len one_handler = 1"
  "registered small_state = []"
  by (simp_all add: elems_def small_state_def small_group_def one_handler_def registered_def)

theorem combineHandlers_spec_witness:
  "valid_slice (mem small_state) (Handlers small_group)
   \<and> valid_slice (mem small_state) one_handler
   \<and> int (sl_len (Handlers small_group) + sl_len one_handler) < 63
   \<and> (\<exists>merged st'. combineHandlers 63 small_group one_handler small_state = Inr (merged, st')
         \<and> elems (mem st') merged = [Func 10, Func 11, Func 1])"
  using combineHandlers_spec[OF small_valid(1) small_valid(2), of 63]
  by (auto simp add: small_valid small_elems)

text \<open>
  Claim C4, as amended. When the chain of the group and the handlers given have together
  fewer than \<^verbatim>\<open>AbortIndex\<close> elements, \<^verbatim>\<open>Any\<close> makes exactly nine registrations, for GET,
  POST, PUT, PATCH, HEAD, OPTIONS, DELETE, CONNECT and TRACE in this order, all with the
  same absolute path and each with a chain that holds the chain of the group followed by
  the handlers given. Otherwise \<^verbatim>\<open>Any\<close> panics with \<^verbatim>\<open>too many handlers\<close> and registers
  nothing.
\<close>

theorem Any_registers_nine:
  assumes "wf_state st"
    and "valid_slice (mem st) (Handlers grp)" and "valid_slice (mem st) handlers"
  shows "(int (sl_len (Handlers grp) + sl_len handlers) < AbortIndex \<longrightarrow>
            (\<exists>st'. Any AbortIndex grp rel handlers st = Inr (returnObj grp, st')
               \<and> registered st' = registered st @
                     map (\<lambda>k. (k, absolute_path grp rel,
                                elems (mem st) (Handlers grp) @ elems (mem st) handlers))
                       [''GET'', ''POST'', ''PUT'', ''PATCH'', ''HEAD'', ''OPTIONS'', ''DELETE'',
                        ''CONNECT'', ''TRACE'']))
       \<and> (AbortIndex \<le> int (sl_len (Handlers grp) + sl_len handlers) \<longrightarrow>
            Any AbortIndex grp rel handlers st = Inl (Panic ''too many handlers'', st))"
proof (intro conjI impI)
  assume lt: "int (sl_len (Handlers grp) + sl_len handlers) < AbortIndex"
  from fold_registered[OF assms, of rel any_methods] Any_ok[OF assms(2,3) lt, of rel]
  show "\<exists>st'. Any AbortIndex grp rel handlers st = Inr (returnObj grp, st')
          \<and> registered st' = registered st @
                map (\<lambda>k. (k, absolute_path grp rel,
                           elems (mem st) (Handlers grp) @ elems (mem st) handlers))
                  [''GET'', ''POST'', ''PUT'', ''PATCH'', ''HEAD'', ''OPTIONS'', ''DELETE'',
                   ''CONNECT'', ''TRACE'']"
    by (simp add: any_methods_def MethodGet_def MethodPost_def MethodPut_def MethodPatch_def
          MethodHead_def MethodOptions_def MethodDelete_def MethodConnect_def MethodTrace_def)
next
  assume "AbortIndex \<le> int (sl_len (Handlers grp) + sl_len handlers)"
  then show "Any AbortIndex grp rel handlers st = Inl (Panic ''too many handlers'', st)"
    by (simp add: Any_def handle_panics and_then_def)
qed

lemma absolute_path_small_x: "absolute_path small_group ''/x'' = ''/v1/x''"
  by code_simp

theorem Any_registers_nine_witness:
  "wf_state small_state \<and> valid_slice (mem small_state) (Handlers small_group)
   \<and> valid_slice (mem small_state) one_handler
   \<and> int (sl_len (Handlers small_group) + sl_len one_handler) < 63
   \<and> (\<exists>st'. Any 63 small_group ''/x'' one_handler small_state = Inr (returnObj small_group, st')
         \<and> registered st' =
             map (\<lambda>k. (k, ''/v1/x'', [Func 10, Func 11, Func 1]))
               [''GET'', ''POST'', ''PUT'', ''PATCH'', ''HEAD'', ''OPTIONS'', ''DELETE'',
                ''CONNECT'', ''TRACE''])"
  using Any_registers_nine[OF small_valid(3) small_valid(1) small_valid(2), of 63 "''/x''"]
  by (simp add: small_valid small_elems absolute_path_small_x)

lemma full_facts:
  "valid_slice (mem full_state) (Handlers full_group)"
  "valid_slice (mem full_state) one_handler"
  "wf_state full_state"
  "sl_len (Handlers full_group) = 62" "sl_len one_handler = 1"
  "registered full_state = []"
  by (simp_all add: valid_slice_def full_state_def full_group_def one_handler_def wf_state_def
        registered_def)

text \<open>
  The claim as stated, for every handler list, fails on a group with 62 handlers and
  \<^verbatim>\<open>AbortIndex = 63\<close>: \<^verbatim>\<open>Any("/x", h)\<close> panics and nothing is registered.
\<close>

theorem Any_counterexample:
  "valid_slice (mem full_state) (Handlers full_group)
   \<and> valid_slice (mem full_state) one_handler
   \<and> Any 63 full_group ''/x'' one_handler full_state = Inl (Panic ''too many handlers'', full_state)
   \<and> registered full_state = []"
  by (simp add: full_facts Any_def handle_panics and_then_def)

section \<open>Properties of the run and shutdown orchestration\<close>

text \<open>
  Claim C9. The default signal waiter calls \<^verbatim>\<open>signal.Notify\<close> once, whatever the select
  receives: with interrupt, hangup and terminate when hangup is not ignored, and with
  interrupt and terminate only when it is.
\<close>

theorem waitSignal_subscription:
  "subscriptions (fst (waitSignal (e\<lparr>sighup_ignored := False\<rparr>))) = [[SIGINT, SIGHUP, SIGTERM]]
   \<and> subscriptions (fst (waitSignal (e\<lparr>sighup_ignored := True\<rparr>))) = [[SIGINT, SIGTERM]]"
  by (cases "select_receives e")
     (simp_all add: waitSignal_def signalToNotify_def subscriptions_def Let_def List.map_filter_simps)

lemma map_filter_append:
  "List.map_filter f (xs @ ys) = List.map_filter f xs @ List.map_filter f ys"
  by (simp add: List.map_filter_def)

lemma trace_readers_simps:
  "deadline_scopes (xs @ ys) = deadline_scopes xs @ deadline_scopes ys"
  "shutdown_calls (xs @ ys) = shutdown_calls xs @ shutdown_calls ys"
  "close_calls (xs @ ys) = close_calls xs + close_calls ys"
  "deadline_scopes [] = []" "shutdown_calls [] = []" "close_calls [] = 0"
  "deadline_scopes (x # xs) = (case deadline_of x of None \<Rightarrow> [] | Some t \<Rightarrow> [t]) @ deadline_scopes xs"
  "shutdown_calls (x # xs) = (case shutdown_of x of None \<Rightarrow> [] | Some t \<Rightarrow> [t]) @ shutdown_calls xs"
  "close_calls (x # xs) = (if x = EngineClose then 1 else 0) + close_calls xs"
  by (simp_all add: deadline_scopes_def shutdown_calls_def close_calls_def map_filter_append
        List.map_filter_simps split: option.splits)

lemma waitSignal_quiet:
  "deadline_scopes (fst (waitSignal e)) = []"
  "shutdown_calls (fst (waitSignal e)) = []"
  "close_calls (fst (waitSignal e)) = 0"
  by (cases "select_receives e"; simp add: waitSignal_def trace_readers_simps Let_def)+

lemma Spin_default:
  "Spin (h\<lparr>signalWaiter := None\<rparr>) e =
     [AppendOnRunHook, GoRun] @ fst (waitSignal e) @
     (case snd (waitSignal e) of
        Some x \<Rightarrow> [Errorf_ReceiveCloseSignal x, EngineClose]
               @ (case close_result e of Some y \<Rightarrow> [Errorf_Close y] | None \<Rightarrow> [])
      | None \<Rightarrow> [Infof_BeginGraceful (go_div (ExitWaitTimeout h) Second),
                  WithTimeout (ExitWaitTimeout h), Shutdown (ExitWaitTimeout h)]
               @ (case shutdown_result e of Some y \<Rightarrow> [Errorf_Shutdown y] | None \<Rightarrow> [])
               @ [Cancel])"
  by (simp add: Spin_def split: prod.splits option.splits)

lemma Spin_default_graceful:
  assumes "snd (waitSignal e) = None"
  shows "deadline_scopes (Spin (h\<lparr>signalWaiter := None\<rparr>) e) = [ExitWaitTimeout h]
       \<and> shutdown_calls (Spin (h\<lparr>signalWaiter := None\<rparr>) e) = [ExitWaitTimeout h]
       \<and> close_calls (Spin (h\<lparr>signalWaiter := None\<rparr>) e) = 0"
  using assms
  by (cases "shutdown_result e")
     (simp_all add: Spin_default trace_readers_simps waitSignal_quiet)

lemma Spin_default_forced:
  assumes "snd (waitSignal e) = Some x"
  shows "deadline_scopes (Spin (h\<lparr>signalWaiter := None\<rparr>) e) = []
       \<and> shutdown_calls (Spin (h\<lparr>signalWaiter := None\<rparr>) e) = []
       \<and> close_calls (Spin (h\<lparr>signalWaiter := None\<rparr>) e) = 1"
  using assms
  by (cases "close_result e")
     (simp_all add: Spin_default trace_readers_simps waitSignal_quiet)

lemma waitSignal_result:
  "snd (waitSignal (e\<lparr>select_receives := FromSignals SIGINT\<rparr>)) = None"
  "snd (waitSignal (e\<lparr>select_receives := FromSignals SIGHUP\<rparr>)) = None"
  "snd (waitSignal (e\<lparr>select_receives := FromSignals SIGTERM\<rparr>)) = Some (Error ''terminated'')"
  "snd (waitSignal (e\<lparr>select_receives := FromErrCh err\<rparr>)) = err"
  by (simp_all add: waitSignal_def Let_def)

text \<open>
  Claim C5. With the default signal waiter: when the select receives an interrupt or a
  hangup signal, \<^verbatim>\<open>Spin\<close> takes the graceful path, whatever \<^verbatim>\<open>Shutdown\<close> returns: it creates
  one deadline scope whose timeout is the configured exit-wait timeout, calls
  \<^verbatim>\<open>Shutdown\<close> once with it and never calls \<^verbatim>\<open>Close\<close>. When the select receives a
  terminate signal or an error that is not \<^verbatim>\<open>nil\<close> from the run-error channel, \<^verbatim>\<open>Spin\<close>
  calls \<^verbatim>\<open>Close\<close> once, creates no deadline scope and never calls \<^verbatim>\<open>Shutdown\<close>.
\<close>

theorem Spin_decision:
  "graceful_path h (Spin (h\<lparr>signalWaiter := None\<rparr>) (e\<lparr>select_receives := FromSignals SIGINT\<rparr>))
   \<and> graceful_path h (Spin (h\<lparr>signalWaiter := None\<rparr>) (e\<lparr>select_receives := FromSignals SIGHUP\<rparr>))
   \<and> immediate_close_path (Spin (h\<lparr>signalWaiter := None\<rparr>) (e\<lparr>select_receives := FromSignals SIGTERM\<rparr>))
   \<and> immediate_close_path (Spin (h\<lparr>signalWaiter := None\<rparr>) (e\<lparr>select_receives := FromErrCh (Some x)\<rparr>))"
  unfolding graceful_path_def immediate_close_path_def
  by (simp add: Spin_default_graceful Spin_default_forced waitSignal_result)

text \<open>
  Claim C10. When the select receives \<^verbatim>\<open>nil\<close> from the run-error channel, the default
  signal waiter returns \<^verbatim>\<open>nil\<close>, and \<^verbatim>\<open>Spin\<close> takes the graceful path: it creates the
  deadline scope with the exit-wait timeout and calls \<^verbatim>\<open>Shutdown\<close> with it, and does not
  take the immediate-close path.
\<close>

theorem Spin_run_returns_nil:
  "snd (waitSignal (e\<lparr>select_receives := FromErrCh None\<rparr>)) = None
   \<and> graceful_path h (Spin (h\<lparr>signalWaiter := None\<rparr>) (e\<lparr>select_receives := FromErrCh None\<rparr>))
   \<and> \<not> immediate_close_path (Spin (h\<lparr>signalWaiter := None\<rparr>) (e\<lparr>select_receives := FromErrCh None\<rparr>))"
  unfolding graceful_path_def immediate_close_path_def
  by (simp add: Spin_default_graceful waitSignal_result)

end
